theory Spec2Isabelle
  imports Complex_Main "HOL-Library.Word"
begin

section \<open>Local Stable Diffusion API: backend/main.py\<close>

text \<open>
  The backend is one module with two HTTP handlers, \<^verbatim>\<open>health\<close> and \<^verbatim>\<open>generate\<close>, a
  request model \<^verbatim>\<open>ImageRequest\<close>, the encoder \<^verbatim>\<open>pil_to_data_url_png\<close> and three module
  globals (\<^verbatim>\<open>MODEL_ID\<close>, \<^verbatim>\<open>pipe\<close>, \<^verbatim>\<open>device\<close>). The diffusion pipeline, the torch generator
  and the PNG codec of PIL are libraries the module calls: they are parameters of the
  model, each returning either the exception it raised or its value.
\<close>

subsection \<open>Data\<close>

type_synonym byte = "8 word"

text \<open>
  The exceptions a call inside the \<^verbatim>\<open>try\<close> block of \<^verbatim>\<open>generate\<close> can raise, split the way
  the two \<^verbatim>\<open>except\<close> clauses split them: \<^verbatim>\<open>torch.cuda.OutOfMemoryError\<close>, and any other
  instance of \<^verbatim>\<open>Exception\<close>. Each carries \<^verbatim>\<open>str(e)\<close>. A \<^verbatim>\<open>KeyboardInterrupt\<close> or \<^verbatim>\<open>SystemExit\<close>
  is no \<^verbatim>\<open>Exception\<close>: it stops the process rather than the request, and is not modelled.
\<close>

datatype exn = OutOfMemoryError string | Exception string

text \<open>\<^verbatim>\<open>HTTPException(status_code=..., detail=...)\<close> of FastAPI.\<close>

datatype http_exception = HTTPException (status_code: nat) (detail: string)

text \<open>The JSON values the handlers put into their response dictionaries.\<close>

datatype json = JString string | JInt int | JBool bool | JNull

type_synonym json_dict = "(string \<times> json) list"

type_synonym response = "http_exception + json_dict"

text \<open>
  \<^verbatim>\<open>class ImageRequest(BaseModel)\<close>. Python's \<^verbatim>\<open>int\<close> is unbounded; \<^verbatim>\<open>float\<close> is modelled by
  \<open>real\<close>: the module stores and forwards the guidance scale and never computes with it.
\<close>

record ImageRequest =
  prompt :: string
  negative_prompt :: string
  num_inference_steps :: int
  guidance_scale :: real
  width :: int
  height :: int
  seed :: "int option"

text \<open>
  The JSON body of \<^verbatim>\<open>POST /generate\<close> before pydantic builds the \<^verbatim>\<open>ImageRequest\<close>: every
  field is either omitted (\<open>None\<close>) or present with a value of the declared type.
\<close>

record request_body =
  body_prompt :: "string option"
  body_negative_prompt :: "string option"
  body_num_inference_steps :: "int option"
  body_guidance_scale :: "real option"
  body_width :: "int option"
  body_height :: "int option"
  body_seed :: "int option"

datatype validation_error = Field_required string

text \<open>The keyword arguments of the call \<^verbatim>\<open>pipe(prompt=..., ..., generator=generator)\<close>.\<close>

record 'gen pipe_args =
  prompt_arg :: string
  negative_prompt_arg :: string
  num_inference_steps_arg :: int
  guidance_scale_arg :: real
  width_arg :: int
  height_arg :: int
  generator_arg :: "'gen option"

text \<open>The pipeline's output object; the handler reads its \<^verbatim>\<open>images\<close> attribute only.\<close>

record 'img pipeline_output =
  images :: "'img list"

type_synonym ('img, 'gen) pipeline = "'gen pipe_args \<Rightarrow> exn + 'img pipeline_output"

text \<open>
  The library calls of the \<^verbatim>\<open>try\<close> block other than the pipeline itself:
  \<^verbatim>\<open>torch.Generator(device=device).manual_seed(seed)\<close> and \<^verbatim>\<open>img.save(buf, format="PNG")\<close>
  followed by \<^verbatim>\<open>buf.getvalue()\<close>.
\<close>

record ('img, 'gen) runtime =
  Generator_manual_seed :: "string \<Rightarrow> int \<Rightarrow> exn + 'gen"
  save_PNG :: "'img \<Rightarrow> exn + byte list"

text \<open>The module globals.\<close>

record ('img, 'gen) app_state =
  MODEL_ID :: string
  pipe :: "('img, 'gen) pipeline option"
  device :: string

text \<open>
  What a handler does besides returning: the records it sends to the logger and the
  invocations of the pipeline, in order.
\<close>

datatype 'gen effect =
  LogInfo string
| LogError string bool
| PipeCall "'gen pipe_args"

fun is_PipeCall :: "'gen effect \<Rightarrow> bool" where
  "is_PipeCall (PipeCall _) = True"
| "is_PipeCall _ = False"

text \<open>FastAPI answers 200 when the handler returns, and the exception's status otherwise.\<close>

fun status_of :: "response \<Rightarrow> nat" where
  "status_of (Inl e) = status_code e"
| "status_of (Inr _) = 200"

subsection \<open>Module globals at import\<close>

text \<open>\<^verbatim>\<open>MODEL_ID = os.getenv("SD_MODEL", "runwayml/stable-diffusion-v1-5")\<close>\<close>

definition getenv_SD_MODEL :: "(string \<rightharpoonup> string) \<Rightarrow> string" where
  "getenv_SD_MODEL env =
     (case env ''SD_MODEL'' of None \<Rightarrow> ''runwayml/stable-diffusion-v1-5'' | Some v \<Rightarrow> v)"

definition initial_state :: "(string \<rightharpoonup> string) \<Rightarrow> ('img, 'gen) app_state" where
  "initial_state env = \<lparr>MODEL_ID = getenv_SD_MODEL env, pipe = None, device = ''cpu''\<rparr>"

subsection \<open>The request model\<close>

text \<open>
  Building an \<^verbatim>\<open>ImageRequest\<close> from the body: \<^verbatim>\<open>prompt\<close> has no default, so a body without
  it is refused; every other omitted field takes the default of the class declaration.
\<close>

definition default_to :: "'a \<Rightarrow> 'a option \<Rightarrow> 'a" where
  "default_to d v = (case v of None \<Rightarrow> d | Some x \<Rightarrow> x)"

definition ImageRequest_validate :: "request_body \<Rightarrow> validation_error + ImageRequest" where
  "ImageRequest_validate b =
     (case body_prompt b of
        None \<Rightarrow> Inl (Field_required ''prompt'')
      | Some p \<Rightarrow> Inr
          \<lparr>prompt = p,
           negative_prompt = default_to ''blurry, low quality, distorted'' (body_negative_prompt b),
           num_inference_steps = default_to 25 (body_num_inference_steps b),
           guidance_scale = default_to 7.5 (body_guidance_scale b),
           width = default_to 512 (body_width b),
           height = default_to 512 (body_height b),
           seed = body_seed b\<rparr>)"

subsection \<open>The response encoder\<close>

text \<open>
  \<^verbatim>\<open>base64.b64encode\<close> of the standard library: three bytes become four characters of
  the alphabet \<^verbatim>\<open>A-Z a-z 0-9 + /\<close>, and a last group of one or two bytes is padded with
  \<^verbatim>\<open>=\<close>. The result is ASCII, so \<^verbatim>\<open>.decode("utf-8")\<close> maps each byte to one character.
\<close>

definition b64_alphabet :: string where
  "b64_alphabet = ''ABCDEFGHIJKLMNOPQRSTUVWXYZabcdefghijklmnopqrstuvwxyz0123456789+/''"

definition b64_char :: "nat \<Rightarrow> char" where
  "b64_char n = b64_alphabet ! (n mod 64)"

fun b64encode :: "byte list \<Rightarrow> string" where
  "b64encode [] = []"
| "b64encode [a] =
     (let n = unat a * 65536
      in [b64_char (n div 262144), b64_char (n div 4096), CHR ''='', CHR ''=''])"
| "b64encode [a, b] =
     (let n = unat a * 65536 + unat b * 256
      in [b64_char (n div 262144), b64_char (n div 4096), b64_char (n div 64), CHR ''=''])"
| "b64encode (a # b # c # bs) =
     (let n = unat a * 65536 + unat b * 256 + unat c
      in [b64_char (n div 262144), b64_char (n div 4096), b64_char (n div 64), b64_char n]
         @ b64encode bs)"

text \<open>
  \<^verbatim>\<open>pil_to_data_url_png\<close>: an exception of \<^verbatim>\<open>img.save\<close> leaves the function; otherwise the
  bytes of the buffer are encoded and prefixed.
\<close>

definition pil_to_data_url_png :: "('img, 'gen) runtime \<Rightarrow> 'img \<Rightarrow> exn + string" where
  "pil_to_data_url_png rt img =
     (case save_PNG rt img of
        Inl e \<Rightarrow> Inl e
      | Inr buf \<Rightarrow> Inr (''data:image/png;base64,'' @ b64encode buf))"

text \<open>
  The reader's side, used to state the round trip: \<^verbatim>\<open>base64.b64decode\<close> on groups of four
  characters, the payload of a data URL, and the PNG bytes that payload stands for.
\<close>

fun index_of :: "'a list \<Rightarrow> 'a \<Rightarrow> nat option" where
  "index_of [] y = None"
| "index_of (x # xs) y = (if x = y then Some 0 else map_option Suc (index_of xs y))"

definition b64_index :: "char \<Rightarrow> nat option" where
  "b64_index c = index_of b64_alphabet c"






subsection \<open>The handlers\<close>

text \<open>
  \<^verbatim>\<open>health\<close>: a handler returns its response, the module globals as it leaves them, and
  its effects.
\<close>

definition health ::
  "('img, 'gen) app_state \<Rightarrow> response \<times> ('img, 'gen) app_state \<times> 'gen effect list" where
  "health st =
     (Inr [(''status'', JString ''ok''),
           (''model'', JString (MODEL_ID st)),
           (''device'', JString (device st)),
           (''loaded'', JBool (\<not> Option.is_none (pipe st)))],
      st, [])"

text \<open>
  The \<^verbatim>\<open>try\<close> block of \<^verbatim>\<open>generate\<close>, statement by statement; the first exception ends it.
  First the generator: \<^verbatim>\<open>None\<close>, or a generator on the device seeded with \<^verbatim>\<open>req.seed\<close>.
\<close>

definition make_generator ::
  "('img, 'gen) runtime \<Rightarrow> ('img, 'gen) app_state \<Rightarrow> ImageRequest \<Rightarrow> exn + 'gen option" where
  "make_generator rt st req =
     (case seed req of
        None \<Rightarrow> Inr None
      | Some s \<Rightarrow> (case Generator_manual_seed rt (device st) s of
                    Inl e \<Rightarrow> Inl e
                  | Inr g \<Rightarrow> Inr (Some g)))"

text \<open>The keyword arguments the handler gives to the pipeline.\<close>

definition pipe_kwargs :: "ImageRequest \<Rightarrow> 'gen option \<Rightarrow> 'gen pipe_args" where
  "pipe_kwargs req generator =
     \<lparr>prompt_arg = prompt req,
      negative_prompt_arg = negative_prompt req,
      num_inference_steps_arg = num_inference_steps req,
      guidance_scale_arg = guidance_scale req,
      width_arg = width req,
      height_arg = height req,
      generator_arg = generator\<rparr>"

text \<open>
  Then the log record, the pipeline call, \<^verbatim>\<open>result.images[0]\<close> (an \<^verbatim>\<open>IndexError\<close> on an
  empty list) and the response dictionary.
\<close>

definition inference ::
  "('img, 'gen) runtime \<Rightarrow> ('img, 'gen) app_state \<Rightarrow> ('img, 'gen) pipeline \<Rightarrow> ImageRequest
     \<Rightarrow> (exn + json_dict) \<times> 'gen effect list" where
  "inference rt st p req =
     (case make_generator rt st req of
        Inl e \<Rightarrow> (Inl e, [])
      | Inr generator \<Rightarrow>
          (let tr = [LogInfo (''Prompt: '' @ prompt req), PipeCall (pipe_kwargs req generator)]
           in case p (pipe_kwargs req generator) of
                Inl e \<Rightarrow> (Inl e, tr)
              | Inr result \<Rightarrow>
                  (case images result of
                     [] \<Rightarrow> (Inl (Exception ''list index out of range''), tr)
                   | img # _ \<Rightarrow>
                       (case pil_to_data_url_png rt img of
                          Inl e \<Rightarrow> (Inl e, tr)
                        | Inr url \<Rightarrow>
                            (Inr [(''image'', JString url),
                                  (''prompt'', JString (prompt req)),
                                  (''seed'', (case seed req of None \<Rightarrow> JNull | Some s \<Rightarrow> JInt s)),
                                  (''device'', JString (device st)),
                                  (''model'', JString (MODEL_ID st))],
                             tr)))))"

text \<open>\<^verbatim>\<open>generate\<close>: the two guards, then the \<^verbatim>\<open>try\<close> block with its two \<^verbatim>\<open>except\<close> clauses.\<close>

definition generate ::
  "('img, 'gen) runtime \<Rightarrow> ('img, 'gen) app_state \<Rightarrow> ImageRequest
     \<Rightarrow> response \<times> ('img, 'gen) app_state \<times> 'gen effect list" where
  "generate rt st req =
     (case pipe st of
        None \<Rightarrow> (Inl (HTTPException 500 ''Model not loaded''), st, [])
      | Some p \<Rightarrow>
          (if width req mod 8 \<noteq> 0 \<or> height req mod 8 \<noteq> 0 then
             (Inl (HTTPException 400 ''width/height must be divisible by 8 (e.g., 512, 768)''),
              st, [])
           else
             (case inference rt st p req of
                (Inr body, tr) \<Rightarrow> (Inr body, st, tr)
              | (Inl (OutOfMemoryError m), tr) \<Rightarrow>
                  (Inl (HTTPException 507
                          ''CUDA OOM. Try smaller width/height (512) or fewer steps.''),
                   st, tr)
              | (Inl (Exception m), tr) \<Rightarrow>
                  (Inl (HTTPException 500 m), st,
                   tr @ [LogError (''Generate error: '' @ m) True]))))"

subsection \<open>A small runtime to run the handlers on\<close>

text \<open>
  Images are byte strings and the codec stores them as they are; a generator is its seed.
  One pipeline returns a three-byte image, one runs out of accelerator memory, one fails
  otherwise.
\<close>

definition demo_runtime :: "(byte list, int) runtime" where
  "demo_runtime = \<lparr>Generator_manual_seed = (\<lambda>dev s. Inr s), save_PNG = (\<lambda>img. Inr img)\<rparr>"

definition demo_pipe :: "(byte list, int) pipeline" where
  "demo_pipe args = Inr \<lparr>images = [[1, 2, 3]]\<rparr>"

definition oom_pipe :: "(byte list, int) pipeline" where
  "oom_pipe args = Inl (OutOfMemoryError ''CUDA out of memory'')"

definition broken_pipe :: "(byte list, int) pipeline" where
  "broken_pipe args = Inl (Exception ''steps must be positive'')"


definition unloaded_state :: "(byte list, int) app_state" where
  "unloaded_state = initial_state Map.empty"

definition loaded_state :: "(byte list, int) pipeline \<Rightarrow> (byte list, int) app_state" where
  "loaded_state p = unloaded_state\<lparr>pipe := Some p\<rparr>"

definition off_grid :: ImageRequest where
  "off_grid =
     \<lparr>prompt = ''x'', negative_prompt = ''blurry, low quality, distorted'',
      num_inference_steps = 25, guidance_scale = 7.5, width = 513, height = 512,
      seed = None\<rparr>"

definition red_circle :: ImageRequest where
  "red_circle =
     \<lparr>prompt = ''a red circle'', negative_prompt = ''blurry, low quality, distorted'',
      num_inference_steps = 25, guidance_scale = 7.5, width = 512, height = 512,
      seed = Some 42\<rparr>"

definition prompt_only :: request_body where
  "prompt_only =
     \<lparr>body_prompt = Some ''x'', body_negative_prompt = None, body_num_inference_steps = None,
      body_guidance_scale = None, body_width = None, body_height = None, body_seed = None\<rparr>"

section \<open>Properties\<close>

subsection \<open>Base64: decoding inverts encoding\<close>







lemma b64_index_pad: "b64_index (CHR ''='') = None"
  by (simp add: b64_index_def b64_alphabet_def)











subsection \<open>The handler's three outcomes\<close>

text \<open>
  Past its two guards \<^verbatim>\<open>generate\<close> is the \<^verbatim>\<open>try\<close> block followed by the \<^verbatim>\<open>except\<close> clauses;
  stopped by a guard it has no effect. The pipeline is called at most once, and the
  module globals are left as they were.
\<close>

lemma inference_PipeCalls:
  "filter is_PipeCall (snd (inference rt st p req)) =
     (case make_generator rt st req of Inl e \<Rightarrow> [] | Inr g \<Rightarrow> [PipeCall (pipe_kwargs req g)])"
  by (simp add: inference_def Let_def split: sum.split list.split)

lemma generate_loaded:
  assumes "pipe st = Some p" "width req mod 8 = 0" "height req mod 8 = 0"
  shows "generate rt st req =
     (case inference rt st p req of
        (Inr body, tr) \<Rightarrow> (Inr body, st, tr)
      | (Inl (OutOfMemoryError m), tr) \<Rightarrow>
          (Inl (HTTPException 507 ''CUDA OOM. Try smaller width/height (512) or fewer steps.''),
           st, tr)
      | (Inl (Exception m), tr) \<Rightarrow>
          (Inl (HTTPException 500 m), st, tr @ [LogError (''Generate error: '' @ m) True]))"
  using assms by (simp add: generate_def)

lemma generate_PipeCalls_loaded:
  assumes "pipe st = Some p" "width req mod 8 = 0" "height req mod 8 = 0"
  shows "filter is_PipeCall (snd (snd (generate rt st req))) =
           filter is_PipeCall (snd (inference rt st p req))"
  by (simp add: generate_loaded [OF assms] split: prod.split sum.split exn.split)

lemma generate_rejected:
  assumes "pipe st = None \<or> width req mod 8 \<noteq> 0 \<or> height req mod 8 \<noteq> 0"
  shows "snd (snd (generate rt st req)) = []" "status_of (fst (generate rt st req)) \<in> {400, 500}"
  using assms by (auto simp add: generate_def split: option.split)

lemma generate_PipeCalls_le:
  "length (filter is_PipeCall (snd (snd (generate rt st req)))) \<le> 1"
proof (cases "pipe st = None \<or> width req mod 8 \<noteq> 0 \<or> height req mod 8 \<noteq> 0")
  case True
  then show ?thesis by (simp add: generate_rejected(1))
next
  case False
  then obtain p where "pipe st = Some p" "width req mod 8 = 0" "height req mod 8 = 0"
    by auto
  then show ?thesis
    by (simp add: generate_PipeCalls_loaded inference_PipeCalls split: sum.split)
qed

lemma inference_Inr:
  assumes "fst (inference rt st p req) = Inr body"
  shows "\<exists>payload. body =
     [(''image'', JString (''data:image/png;base64,'' @ payload)),
      (''prompt'', JString (prompt req)),
      (''seed'', (case seed req of None \<Rightarrow> JNull | Some s \<Rightarrow> JInt s)),
      (''device'', JString (device st)),
      (''model'', JString (MODEL_ID st))]"
  using assms
  by (auto simp add: inference_def pil_to_data_url_png_def Let_def
      split: sum.splits list.splits)

lemma generate_state: "fst (snd (generate rt st req)) = st"
  by (simp add: generate_def split: option.split prod.split sum.split exn.split)

subsection \<open>The handlers on the small runtime\<close>

lemmas demo_defs =
  demo_runtime_def demo_pipe_def oom_pipe_def broken_pipe_def unloaded_state_def
  loaded_state_def initial_state_def getenv_SD_MODEL_def red_circle_def off_grid_def

lemmas handler_defs =
  generate_def inference_def make_generator_def pipe_kwargs_def pil_to_data_url_png_def Let_def

lemma b64encode_123: "b64encode [1, 2, 3] = ''AQID''"
  by (simp add: b64_char_def b64_alphabet_def)

subsection \<open>Dimension validation\<close>

text \<open>
  Claim C1, as the code has it. While the model handle is populated, a request whose width
  or height is not a multiple of 8 is answered with status 400 and has no effect, so the
  pipeline is not called. A request whose width and height are multiples of 8 never gets
  the 400 answer, and once its generator is built the pipeline is called exactly once with
  the prompt, negative prompt, step count, guidance scale, width and height of the request
  as they are: the handler looks at no other field. Without a seed the generator is
  \<^verbatim>\<open>None\<close> and building it cannot fail.
\<close>

theorem generate_dimension_check:
  assumes "pipe st = Some p"
  shows "(width req mod 8 \<noteq> 0 \<or> height req mod 8 \<noteq> 0 \<longrightarrow>
            generate rt st req =
              (Inl (HTTPException 400 ''width/height must be divisible by 8 (e.g., 512, 768)''),
               st, []))
       \<and> (width req mod 8 = 0 \<and> height req mod 8 = 0 \<longrightarrow>
            status_of (fst (generate rt st req)) \<noteq> 400
            \<and> (\<forall>g. make_generator rt st req = Inr g \<longrightarrow>
                  filter is_PipeCall (snd (snd (generate rt st req))) =
                    [PipeCall \<lparr>prompt_arg = prompt req,
                               negative_prompt_arg = negative_prompt req,
                               num_inference_steps_arg = num_inference_steps req,
                               guidance_scale_arg = guidance_scale req,
                               width_arg = width req,
                               height_arg = height req,
                               generator_arg = g\<rparr>])
            \<and> (seed req = None \<longrightarrow> make_generator rt st req = Inr None))"
proof (intro conjI impI allI)
  assume "width req mod 8 \<noteq> 0 \<or> height req mod 8 \<noteq> 0"
  with assms show "generate rt st req =
      (Inl (HTTPException 400 ''width/height must be divisible by 8 (e.g., 512, 768)''), st, [])"
    by (simp add: generate_def)
next
  assume d: "width req mod 8 = 0 \<and> height req mod 8 = 0"
  show "status_of (fst (generate rt st req)) \<noteq> 400"
    using assms d by (simp add: generate_loaded split: prod.split sum.split exn.split)
next
  fix g
  assume d: "width req mod 8 = 0 \<and> height req mod 8 = 0"
    and g: "make_generator rt st req = Inr g"
  from assms d have "filter is_PipeCall (snd (snd (generate rt st req))) =
      filter is_PipeCall (snd (inference rt st p req))"
    by (simp add: generate_PipeCalls_loaded)
  with g show "filter is_PipeCall (snd (snd (generate rt st req))) =
      [PipeCall \<lparr>prompt_arg = prompt req, negative_prompt_arg = negative_prompt req,
         num_inference_steps_arg = num_inference_steps req,
         guidance_scale_arg = guidance_scale req, width_arg = width req,
         height_arg = height req, generator_arg = g\<rparr>]"
    by (simp add: inference_PipeCalls pipe_kwargs_def)
next
  assume "seed req = None"
  then show "make_generator rt st req = Inr None"
    by (simp add: make_generator_def)
qed

theorem generate_dimension_check_witness:
  "pipe (loaded_state demo_pipe) = Some demo_pipe
   \<and> width off_grid mod 8 \<noteq> 0
   \<and> generate demo_runtime (loaded_state demo_pipe) off_grid =
       (Inl (HTTPException 400 ''width/height must be divisible by 8 (e.g., 512, 768)''),
        loaded_state demo_pipe, [])
   \<and> width red_circle mod 8 = 0 \<and> height red_circle mod 8 = 0
   \<and> make_generator demo_runtime (loaded_state demo_pipe) red_circle = Inr (Some 42)
   \<and> status_of (fst (generate demo_runtime (loaded_state demo_pipe) red_circle)) \<noteq> 400
   \<and> filter is_PipeCall (snd (snd (generate demo_runtime (loaded_state demo_pipe) red_circle))) =
       [PipeCall \<lparr>prompt_arg = ''a red circle'',
                  negative_prompt_arg = ''blurry, low quality, distorted'',
                  num_inference_steps_arg = 25, guidance_scale_arg = 7.5,
                  width_arg = 512, height_arg = 512, generator_arg = Some 42\<rparr>]"
proof -
  have l: "pipe (loaded_state demo_pipe) = Some demo_pipe"
    by (simp add: loaded_state_def)
  have w: "width off_grid mod 8 \<noteq> 0"
    by (simp add: off_grid_def)
  have d: "width red_circle mod 8 = 0 \<and> height red_circle mod 8 = 0"
    by (simp add: red_circle_def)
  have g: "make_generator demo_runtime (loaded_state demo_pipe) red_circle = Inr (Some 42)"
    by (simp add: make_generator_def demo_runtime_def red_circle_def)
  have r: "prompt red_circle = ''a red circle''"
    "negative_prompt red_circle = ''blurry, low quality, distorted''"
    "num_inference_steps red_circle = 25" "guidance_scale red_circle = 7.5"
    "width red_circle = 512" "height red_circle = 512"
    by (simp_all add: red_circle_def)
  show ?thesis
    using l w d g generate_dimension_check [OF l, of off_grid demo_runtime]
      generate_dimension_check [OF l, of red_circle demo_runtime]
    by (simp add: r)
qed

text \<open>
  Without the condition on the model handle the 400 answer is not what the handler gives:
  the request of the specification's scenario, width 513, sent before the model is loaded
  gets status 500.
\<close>

theorem generate_dimension_check_needs_model:
  "width off_grid mod 8 \<noteq> 0
   \<and> fst (generate demo_runtime unloaded_state off_grid)
       = Inl (HTTPException 500 ''Model not loaded'')
   \<and> status_of (fst (generate demo_runtime unloaded_state off_grid)) = 500"
  by (simp add: generate_def unloaded_state_def initial_state_def off_grid_def)

subsection \<open>Model not loaded\<close>

text \<open>
  Claim C2. While the model handle is absent, every request to \<^verbatim>\<open>generate\<close> is answered with
  status 500 and the message "Model not loaded"; the handler has no effect, so the pipeline
  is not invoked.
\<close>

theorem generate_model_not_loaded:
  assumes "pipe st = None"
  shows "generate rt st req = (Inl (HTTPException 500 ''Model not loaded''), st, [])
         \<and> status_of (fst (generate rt st req)) = 500
         \<and> filter is_PipeCall (snd (snd (generate rt st req))) = []"
  using assms by (simp add: generate_def)

theorem generate_model_not_loaded_witness:
  "pipe unloaded_state = None
   \<and> generate demo_runtime unloaded_state red_circle
       = (Inl (HTTPException 500 ''Model not loaded''), unloaded_state, [])
   \<and> status_of (fst (generate demo_runtime unloaded_state red_circle)) = 500
   \<and> filter is_PipeCall (snd (snd (generate demo_runtime unloaded_state red_circle))) = []"
proof -
  have h: "pipe unloaded_state = None"
    by (simp add: unloaded_state_def initial_state_def)
  show ?thesis
    using h generate_model_not_loaded [OF h, of demo_runtime red_circle] by simp
qed

text \<open>
  Claim C3. The check of the model handle comes before the check of the dimensions: a
  request with a width or height that is not a multiple of 8, sent while the handle is
  absent, gets the 500 "Model not loaded" answer and not the 400 one.
\<close>

theorem generate_model_check_first:
  assumes "pipe st = None" and "width req mod 8 \<noteq> 0 \<or> height req mod 8 \<noteq> 0"
  shows "fst (generate rt st req) = Inl (HTTPException 500 ''Model not loaded'')
         \<and> status_of (fst (generate rt st req)) \<noteq> 400"
  using assms(1) by (simp add: generate_def)

theorem generate_model_check_first_witness:
  "pipe unloaded_state = None \<and> width off_grid mod 8 \<noteq> 0
   \<and> fst (generate demo_runtime unloaded_state off_grid)
       = Inl (HTTPException 500 ''Model not loaded'')
   \<and> status_of (fst (generate demo_runtime unloaded_state off_grid)) \<noteq> 400"
proof -
  have h: "pipe unloaded_state = None"
    by (simp add: unloaded_state_def initial_state_def)
  have w: "width off_grid mod 8 \<noteq> 0"
    by (simp add: off_grid_def)
  then have "width off_grid mod 8 \<noteq> 0 \<or> height off_grid mod 8 \<noteq> 0" ..
  from generate_model_check_first [OF h this, of demo_runtime] h w
  show ?thesis by simp
qed

subsection \<open>Health\<close>

text \<open>
  Claim C5. \<^verbatim>\<open>health\<close> always returns, with status 200, the dictionary of exactly the four
  fields status, model, device and loaded: "ok", the configured model identifier, the
  device label, and whether the model handle is populated. It changes no global and has
  no effect, whatever the state.
\<close>

theorem health_always_ok:
  "health st =
     (Inr [(''status'', JString ''ok''),
           (''model'', JString (MODEL_ID st)),
           (''device'', JString (device st)),
           (''loaded'', JBool (pipe st \<noteq> None))],
      st, [])
   \<and> status_of (fst (health st)) = 200"
  by (simp add: health_def Option.is_none_def)

theorem health_always_ok_witness:
  "health unloaded_state =
     (Inr [(''status'', JString ''ok''),
           (''model'', JString ''runwayml/stable-diffusion-v1-5''),
           (''device'', JString ''cpu''),
           (''loaded'', JBool False)],
      unloaded_state, [])
   \<and> fst (health (loaded_state demo_pipe)) =
     Inr [(''status'', JString ''ok''),
           (''model'', JString ''runwayml/stable-diffusion-v1-5''),
           (''device'', JString ''cpu''),
           (''loaded'', JBool True)]
   \<and> status_of (fst (health unloaded_state)) = 200"
  using health_always_ok [of unloaded_state] health_always_ok [of "loaded_state demo_pipe"]
  by (simp add: unloaded_state_def loaded_state_def initial_state_def getenv_SD_MODEL_def)

subsection \<open>The data URL\<close>




subsection \<open>Failures of the inference\<close>

text \<open>
  Claim C7. The answer of \<^verbatim>\<open>generate\<close> has status 507 if and only if the \<^verbatim>\<open>try\<close> block was
  entered and an accelerator out-of-memory error was raised in it; the answer then carries
  the advice to reduce the size or the number of steps. The pipeline is called at most
  once: nothing is retried.
\<close>

theorem generate_507_iff_oom:
  "(status_of (fst (generate rt st req)) = 507 \<longleftrightarrow>
      (\<exists>p m. pipe st = Some p \<and> width req mod 8 = 0 \<and> height req mod 8 = 0
             \<and> fst (inference rt st p req) = Inl (OutOfMemoryError m)))
   \<and> (status_of (fst (generate rt st req)) = 507 \<longrightarrow>
        fst (generate rt st req) =
          Inl (HTTPException 507 ''CUDA OOM. Try smaller width/height (512) or fewer steps.''))
   \<and> length (filter is_PipeCall (snd (snd (generate rt st req)))) \<le> 1"
proof (cases "pipe st = None \<or> width req mod 8 \<noteq> 0 \<or> height req mod 8 \<noteq> 0")
  case True
  with generate_rejected(2) [OF True, of rt] generate_PipeCalls_le [of rt st req]
  show ?thesis by auto
next
  case False
  then obtain p where l: "pipe st = Some p" "width req mod 8 = 0" "height req mod 8 = 0"
    by auto
  have "fst (generate rt st req) =
      (case fst (inference rt st p req) of
         Inr body \<Rightarrow> Inr body
       | Inl (OutOfMemoryError m) \<Rightarrow>
           Inl (HTTPException 507 ''CUDA OOM. Try smaller width/height (512) or fewer steps.'')
       | Inl (Exception m) \<Rightarrow> Inl (HTTPException 500 m))"
    by (simp add: generate_loaded [OF l] split: prod.split sum.split exn.split)
  then show ?thesis
    using l generate_PipeCalls_le [of rt st req]
    by (auto split: sum.splits exn.splits)
qed

theorem generate_507_iff_oom_witness:
  "pipe (loaded_state oom_pipe) = Some oom_pipe
   \<and> width red_circle mod 8 = 0 \<and> height red_circle mod 8 = 0
   \<and> fst (inference demo_runtime (loaded_state oom_pipe) oom_pipe red_circle)
       = Inl (OutOfMemoryError ''CUDA out of memory'')
   \<and> status_of (fst (generate demo_runtime (loaded_state oom_pipe) red_circle)) = 507
   \<and> fst (generate demo_runtime (loaded_state oom_pipe) red_circle) =
       Inl (HTTPException 507 ''CUDA OOM. Try smaller width/height (512) or fewer steps.'')
   \<and> status_of (fst (generate demo_runtime (loaded_state demo_pipe) red_circle)) \<noteq> 507"
proof -
  have l: "pipe (loaded_state oom_pipe) = Some oom_pipe"
    by (simp add: loaded_state_def)
  have d: "width red_circle mod 8 = 0" "height red_circle mod 8 = 0"
    by (simp_all add: red_circle_def)
  have i: "fst (inference demo_runtime (loaded_state oom_pipe) oom_pipe red_circle)
      = Inl (OutOfMemoryError ''CUDA out of memory'')"
    by (simp add: inference_def make_generator_def demo_runtime_def oom_pipe_def red_circle_def)
  have e: "\<exists>p m. pipe (loaded_state oom_pipe) = Some p \<and> width red_circle mod 8 = 0
      \<and> height red_circle mod 8 = 0
      \<and> fst (inference demo_runtime (loaded_state oom_pipe) p red_circle)
          = Inl (OutOfMemoryError m)"
    using l d i by (intro exI [of _ oom_pipe] exI [of _ "''CUDA out of memory''"]) simp
  have s: "status_of (fst (generate demo_runtime (loaded_state oom_pipe) red_circle)) = 507"
    using generate_507_iff_oom [of demo_runtime "loaded_state oom_pipe" red_circle,
        THEN conjunct1] e
    by (rule iffD2)
  have n: "status_of (fst (generate demo_runtime (loaded_state demo_pipe) red_circle)) \<noteq> 507"
    by (simp add: handler_defs demo_defs del: b64encode.simps)
  show ?thesis
    using generate_507_iff_oom [of demo_runtime "loaded_state oom_pipe" red_circle] l d i s n
    by simp
qed

text \<open>
  Claim C8. When the \<^verbatim>\<open>try\<close> block raises an exception that is not the out-of-memory error,
  the answer has status 500 and its detail is the message of the exception; the handler
  logs the error with the exception's traceback (\<^verbatim>\<open>exc_info=True\<close>) as its last effect,
  and the pipeline is called at most once.
\<close>

theorem generate_other_failure:
  assumes "pipe st = Some p" and "width req mod 8 = 0" and "height req mod 8 = 0"
    and "fst (inference rt st p req) = Inl (Exception m)"
  shows "fst (generate rt st req) = Inl (HTTPException 500 m)
         \<and> status_of (fst (generate rt st req)) = 500
         \<and> snd (snd (generate rt st req)) =
             snd (inference rt st p req) @ [LogError (''Generate error: '' @ m) True]
         \<and> length (filter is_PipeCall (snd (snd (generate rt st req)))) \<le> 1"
proof -
  from assms(4) obtain tr where "inference rt st p req = (Inl (Exception m), tr)"
    by (cases "inference rt st p req") simp
  then show ?thesis
    using generate_PipeCalls_le [of rt st req] by (simp add: generate_loaded [OF assms(1-3)])
qed

theorem generate_other_failure_witness:
  "pipe (loaded_state broken_pipe) = Some broken_pipe
   \<and> width red_circle mod 8 = 0 \<and> height red_circle mod 8 = 0
   \<and> fst (inference demo_runtime (loaded_state broken_pipe) broken_pipe red_circle)
       = Inl (Exception ''steps must be positive'')
   \<and> fst (generate demo_runtime (loaded_state broken_pipe) red_circle)
       = Inl (HTTPException 500 ''steps must be positive'')
   \<and> status_of (fst (generate demo_runtime (loaded_state broken_pipe) red_circle)) = 500
   \<and> last (snd (snd (generate demo_runtime (loaded_state broken_pipe) red_circle)))
       = LogError ''Generate error: steps must be positive'' True"
proof -
  have l: "pipe (loaded_state broken_pipe) = Some broken_pipe"
    by (simp add: loaded_state_def)
  have d: "width red_circle mod 8 = 0" "height red_circle mod 8 = 0"
    by (simp_all add: red_circle_def)
  have i: "fst (inference demo_runtime (loaded_state broken_pipe) broken_pipe red_circle)
      = Inl (Exception ''steps must be positive'')"
    by (simp add: inference_def make_generator_def demo_runtime_def broken_pipe_def
        red_circle_def)
  show ?thesis
    using l d i generate_other_failure [OF l d i] by simp
qed

subsection \<open>The successful answer\<close>

text \<open>
  Claim C9. When \<^verbatim>\<open>generate\<close> returns, the status is 200 and the body has exactly the fields
  image, prompt, seed, device and model: the image is a string that starts with
  \<^verbatim>\<open>data:image/png;base64,\<close>, prompt and seed are those of the request (an absent seed is
  null), device is the device label and model the configured model identifier.
\<close>

theorem generate_success_body:
  assumes "fst (generate rt st req) = Inr body"
  shows "status_of (fst (generate rt st req)) = 200
         \<and> map fst body = [''image'', ''prompt'', ''seed'', ''device'', ''model'']
         \<and> (\<exists>payload. body =
               [(''image'', JString (''data:image/png;base64,'' @ payload)),
                (''prompt'', JString (prompt req)),
                (''seed'', (case seed req of None \<Rightarrow> JNull | Some s \<Rightarrow> JInt s)),
                (''device'', JString (device st)),
                (''model'', JString (MODEL_ID st))])"
proof -
  from assms obtain p where l: "pipe st = Some p" "width req mod 8 = 0" "height req mod 8 = 0"
    by (auto simp add: generate_def split: option.splits if_splits)
  from assms have "fst (inference rt st p req) = Inr body"
    by (auto simp add: generate_loaded [OF l] split: prod.splits sum.splits exn.splits)
  from inference_Inr [OF this] obtain payload where "body =
     [(''image'', JString (''data:image/png;base64,'' @ payload)),
      (''prompt'', JString (prompt req)),
      (''seed'', (case seed req of None \<Rightarrow> JNull | Some s \<Rightarrow> JInt s)),
      (''device'', JString (device st)),
      (''model'', JString (MODEL_ID st))]" ..
  with assms show ?thesis by auto
qed

theorem generate_success_body_witness:
  "fst (generate demo_runtime (loaded_state demo_pipe) red_circle) =
     Inr [(''image'', JString ''data:image/png;base64,AQID''),
          (''prompt'', JString ''a red circle''),
          (''seed'', JInt 42),
          (''device'', JString ''cpu''),
          (''model'', JString ''runwayml/stable-diffusion-v1-5'')]
   \<and> status_of (fst (generate demo_runtime (loaded_state demo_pipe) red_circle)) = 200
   \<and> map fst [(''image'', JString ''data:image/png;base64,AQID''),
          (''prompt'', JString ''a red circle''),
          (''seed'', JInt 42),
          (''device'', JString ''cpu''),
          (''model'', JString ''runwayml/stable-diffusion-v1-5'')]
       = [''image'', ''prompt'', ''seed'', ''device'', ''model'']"
proof -
  have h: "fst (generate demo_runtime (loaded_state demo_pipe) red_circle) =
     Inr [(''image'', JString ''data:image/png;base64,AQID''),
          (''prompt'', JString ''a red circle''),
          (''seed'', JInt 42),
          (''device'', JString ''cpu''),
          (''model'', JString ''runwayml/stable-diffusion-v1-5'')]"
    by (simp add: handler_defs demo_defs b64encode_123 del: b64encode.simps)
  show ?thesis
    using h generate_success_body [OF h] by simp
qed

subsection \<open>Defaults of the request model\<close>

text \<open>
  Claim C10. A body without prompt is refused: prompt is required. Otherwise the request
  is built, and each field the body omits takes its default: negative prompt
  "blurry, low quality, distorted", 25 steps, guidance scale 7.5, width and height 512, no
  seed. A field the body gives keeps the given value.
\<close>

theorem ImageRequest_defaults:
  "(body_prompt b = None \<longrightarrow> ImageRequest_validate b = Inl (Field_required ''prompt''))
   \<and> (\<forall>p. body_prompt b = Some p \<longrightarrow>
        (\<exists>r. ImageRequest_validate b = Inr r \<and> prompt r = p
           \<and> (body_negative_prompt b = None \<longrightarrow>
                 negative_prompt r = ''blurry, low quality, distorted'')
           \<and> (body_num_inference_steps b = None \<longrightarrow> num_inference_steps r = 25)
           \<and> (body_guidance_scale b = None \<longrightarrow> guidance_scale r = 7.5)
           \<and> (body_width b = None \<longrightarrow> width r = 512)
           \<and> (body_height b = None \<longrightarrow> height r = 512)
           \<and> (body_seed b = None \<longrightarrow> seed r = None)
           \<and> (\<forall>v. body_negative_prompt b = Some v \<longrightarrow> negative_prompt r = v)
           \<and> (\<forall>v. body_num_inference_steps b = Some v \<longrightarrow> num_inference_steps r = v)
           \<and> (\<forall>v. body_guidance_scale b = Some v \<longrightarrow> guidance_scale r = v)
           \<and> (\<forall>v. body_width b = Some v \<longrightarrow> width r = v)
           \<and> (\<forall>v. body_height b = Some v \<longrightarrow> height r = v)
           \<and> (\<forall>v. body_seed b = Some v \<longrightarrow> seed r = Some v)))"
  by (simp add: ImageRequest_validate_def default_to_def)

theorem ImageRequest_defaults_witness:
  "body_prompt prompt_only = Some ''x''
   \<and> ImageRequest_validate prompt_only =
       Inr \<lparr>prompt = ''x'', negative_prompt = ''blurry, low quality, distorted'',
            num_inference_steps = 25, guidance_scale = 7.5, width = 512, height = 512,
            seed = None\<rparr>
   \<and> ImageRequest_validate (prompt_only\<lparr>body_prompt := None\<rparr>) = Inl (Field_required ''prompt'')"
proof -
  have p: "body_prompt prompt_only = Some ''x''"
    and o: "body_negative_prompt prompt_only = None" "body_num_inference_steps prompt_only = None"
      "body_guidance_scale prompt_only = None" "body_width prompt_only = None"
      "body_height prompt_only = None" "body_seed prompt_only = None"
    by (simp_all add: prompt_only_def)
  from ImageRequest_defaults [of prompt_only] p o
  obtain r where r: "ImageRequest_validate prompt_only = Inr r" "prompt r = ''x''"
    "negative_prompt r = ''blurry, low quality, distorted''" "num_inference_steps r = 25"
    "guidance_scale r = 7.5" "width r = 512" "height r = 512" "seed r = None"
    by auto
  then have "r = \<lparr>prompt = ''x'', negative_prompt = ''blurry, low quality, distorted'',
            num_inference_steps = 25, guidance_scale = 7.5, width = 512, height = 512,
            seed = None\<rparr>"
    by (cases r) simp
  moreover have "ImageRequest_validate (prompt_only\<lparr>body_prompt := None\<rparr>)
      = Inl (Field_required ''prompt'')"
    using ImageRequest_defaults [of "prompt_only\<lparr>body_prompt := None\<rparr>"] by simp
  ultimately show ?thesis using p r(1) by simp
qed

end
